theory Spec2Isabelle
  imports Complex_Main "HOL-Library.Word" "HOL-Library.Log_Nat"
begin

unbundle bit_operations_syntax

section \<open>Bytes, characters and C++ integers\<close>

text \<open>
  A \<^verbatim>\<open>uint8_t\<close> is an \<open>8 word\<close>; a \<^verbatim>\<open>std::string\<close> is a \<open>string\<close> (a list of 8-bit
  characters). A C++ \<^verbatim>\<open>int\<close> is modelled by \<open>int\<close>: every \<^verbatim>\<open>int\<close> the two tools compute
  stays far inside 32 bits, except \<^verbatim>\<open>basicLength + 128\<close> for a length above \<open>2^31 - 129\<close>, which
  is undefined behaviour in the source and is not modelled. On \<open>int\<close>, \<open>drop_bit\<close> is the
  arithmetic right shift and \<open>AND\<close> works on the two's complement, as \<^verbatim>\<open>>>\<close> and \<^verbatim>\<open>&\<close> do.
\<close>

type_synonym byte = "8 word"

definition static_cast_uint8 :: "int \<Rightarrow> byte" where
  "static_cast_uint8 x = word_of_int x"

definition byte_of_char :: "char \<Rightarrow> byte" where
  "byte_of_char c = of_char c"

definition char_of_byte :: "byte \<Rightarrow> char" where
  "char_of_byte b = char_of (unat b)"

definition bytes_of_string :: "string \<Rightarrow> byte list" where
  "bytes_of_string s = map byte_of_char s"

section \<open>txt2bas: the +3DOS header\<close>

text \<open>
  \<^verbatim>\<open>Plus3Dos::CreateHeader\<close> (txt2bas.cpp). The vector of 128 zero bytes is updated field by
  field in the order of the source; the checksum loop adds the first 127 bytes into an
  \<^verbatim>\<open>int\<close>.
\<close>

definition checksum_loop :: "byte list \<Rightarrow> int" where
  "checksum_loop header = fold (\<lambda>i sum. sum + uint (header ! i)) [0..<127] 0"

definition CreateHeader :: "int \<Rightarrow> int \<Rightarrow> byte list" where
  "CreateHeader basicLength autoStartLine =
    (let header = replicate 128 (0 :: byte);
         header = bytes_of_string ''PLUS3DOS'' @ drop 8 header;
         header = header[8 := 0x1A];
         header = header[9 := 0x01];
         header = header[10 := 0x00];
         totalFileSize = basicLength + 128;
         header = header[11 := static_cast_uint8 (totalFileSize AND 0xFF)];
         header = header[12 := static_cast_uint8 (drop_bit 8 totalFileSize AND 0xFF)];
         header = header[13 := static_cast_uint8 (drop_bit 16 totalFileSize AND 0xFF)];
         header = header[14 := static_cast_uint8 (drop_bit 24 totalFileSize AND 0xFF)];
         header = header[15 := 0x00];
         header = header[16 := static_cast_uint8 (basicLength AND 0xFF)];
         header = header[17 := static_cast_uint8 (drop_bit 8 basicLength AND 0xFF)];
         header =
           (if autoStartLine \<ge> 0 \<and> autoStartLine < 32768
            then (header[18 := static_cast_uint8 (autoStartLine AND 0xFF)])
                   [19 := static_cast_uint8 (drop_bit 8 autoStartLine AND 0xFF)]
            else (header[18 := static_cast_uint8 (32768 AND 0xFF)])
                   [19 := static_cast_uint8 (drop_bit 8 32768 AND 0xFF)]);
         header = header[20 := static_cast_uint8 (basicLength AND 0xFF)];
         header = header[21 := static_cast_uint8 (drop_bit 8 basicLength AND 0xFF)];
         sum = checksum_loop header
     in header[127 := static_cast_uint8 (sum mod 256)])"

section \<open>Character classes of the C locale\<close>

text \<open>
  \<^verbatim>\<open>std::isdigit\<close>, \<^verbatim>\<open>std::isalpha\<close>, \<^verbatim>\<open>std::isalnum\<close>, \<^verbatim>\<open>std::isspace\<close>, \<^verbatim>\<open>std::toupper\<close> and
  \<^verbatim>\<open>std::tolower\<close> on an \<^verbatim>\<open>unsigned char\<close>, in the default "C" locale the tools run in.
\<close>

definition isdigit :: "char \<Rightarrow> bool" where
  "isdigit c = (48 \<le> (of_char c :: nat) \<and> (of_char c :: nat) \<le> 57)"

definition isupper :: "char \<Rightarrow> bool" where
  "isupper c = (65 \<le> (of_char c :: nat) \<and> (of_char c :: nat) \<le> 90)"

definition islower :: "char \<Rightarrow> bool" where
  "islower c = (97 \<le> (of_char c :: nat) \<and> (of_char c :: nat) \<le> 122)"

definition isalpha :: "char \<Rightarrow> bool" where
  "isalpha c = (isupper c \<or> islower c)"

definition isalnum :: "char \<Rightarrow> bool" where
  "isalnum c = (isalpha c \<or> isdigit c)"

definition isspace :: "char \<Rightarrow> bool" where
  "isspace c = ((of_char c :: nat) = 32 \<or> (9 \<le> (of_char c :: nat) \<and> (of_char c :: nat) \<le> 13))"

definition toupper :: "char \<Rightarrow> char" where
  "toupper c = (if islower c then char_of ((of_char c :: nat) - 32) else c)"

definition tolower :: "char \<Rightarrow> char" where
  "tolower c = (if isupper c then char_of ((of_char c :: nat) + 32) else c)"

section \<open>bas2txt: the decoder\<close>

text \<open>
  \<^verbatim>\<open>ReverseTokenMap::ReverseTokenMap\<close> (bas2txt.cpp): the entries in the order of the source.
  The codes are distinct, so the \<^verbatim>\<open>unordered_map\<close> is the map of this association list.
\<close>

definition ReverseTokenMap :: "(byte \<times> string) list" where
  "ReverseTokenMap =
    [
     (0x87, ''PEEK$''), (0x88, ''REG''), (0x89, ''DPOKE''), (0x8A, ''DPEEK''),
     (0x8B, ''MOD''), (0x8C, ''<<''), (0x8D, ''>>''), (0x8E, ''UNTIL''),
     (0x8F, ''ERROR''), (0x90, ''ON''), (0x91, ''DEFPROC''), (0x92, ''ENDPROC''),
     (0x93, ''PROC''), (0x94, ''LOCAL''), (0x95, ''DRIVER''), (0x96, ''WHILE''),
     (0x97, ''REPEAT''), (0x98, ''ELSE''), (0x99, ''REMOUNT''), (0x9A, ''BANK''),
     (0x9B, ''TILE''), (0x9C, ''LAYER''), (0x9D, ''PALETTE''), (0x9E, ''SPRITE''),
     (0x9F, ''PWD''), (0xA0, ''CD''), (0xA1, ''MKDIR''), (0xA2, ''RMDIR''),
     (0xA3, ''SPECTRUM''), (0xA4, ''PLAY''), (0xA5, ''RND''), (0xA6, ''INKEY$''),
     (0xA7, ''PI''), (0xA8, ''FN''), (0xA9, ''POINT''), (0xAA, ''SCREEN$''),
     (0xAB, ''ATTR''), (0xAC, ''AT''), (0xAD, ''TAB''), (0xAE, ''VAL$''),
     (0xAF, ''CODE''), (0xB0, ''VAL''), (0xB1, ''LEN''), (0xB2, ''SIN''),
     (0xB3, ''COS''), (0xB4, ''TAN''), (0xB5, ''ASN''), (0xB6, ''ACS''),
     (0xB7, ''ATN''), (0xB8, ''LN''), (0xB9, ''EXP''), (0xBA, ''INT''),
     (0xBB, ''SQR''), (0xBC, ''SGN''), (0xBD, ''ABS''), (0xBE, ''PEEK''),
     (0xBF, ''IN''), (0xC0, ''USR''), (0xC1, ''STR$''), (0xC2, ''CHR$''),
     (0xC3, ''NOT''), (0xC4, ''BIN''), (0xC5, ''OR''), (0xC6, ''AND''),
     (0xC7, ''<=''), (0xC8, ''>=''), (0xC9, ''<>''), (0xCA, ''LINE''),
     (0xCB, ''THEN''), (0xCC, ''TO''), (0xCD, ''STEP''), (0xCE, ''DEF FN''),
     (0xCF, ''CAT''), (0xD0, ''FORMAT''), (0xD1, ''MOVE''), (0xD2, ''ERASE''),
     (0xD3, ''OPEN #''), (0xD4, ''CLOSE #''), (0xD5, ''MERGE''), (0xD6, ''VERIFY''),
     (0xD7, ''BEEP''), (0xD8, ''CIRCLE''), (0xD9, ''INK''), (0xDA, ''PAPER''),
     (0xDB, ''FLASH''), (0xDC, ''BRIGHT''), (0xDD, ''INVERSE''), (0xDE, ''OVER''),
     (0xDF, ''OUT''), (0xE0, ''LPRINT''), (0xE1, ''LLIST''), (0xE2, ''STOP''),
     (0xE3, ''READ''), (0xE4, ''DATA''), (0xE5, ''RESTORE''), (0xE6, ''NEW''),
     (0xE7, ''BORDER''), (0xE8, ''CONTINUE''), (0xE9, ''DIM''), (0xEA, ''REM''),
     (0xEB, ''FOR''), (0xEC, ''GO TO''), (0xED, ''GO SUB''), (0xEE, ''INPUT''),
     (0xEF, ''LOAD''), (0xF0, ''LIST''), (0xF1, ''LET''), (0xF2, ''PAUSE''),
     (0xF3, ''NEXT''), (0xF4, ''POKE''), (0xF5, ''PRINT''), (0xF6, ''PLOT''),
     (0xF7, ''RUN''), (0xF8, ''SAVE''), (0xF9, ''RANDOMIZE''), (0xFA, ''IF''),
     (0xFB, ''CLS''), (0xFC, ''DRAW''), (0xFD, ''CLEAR''), (0xFE, ''RETURN''),
     (0xFF, ''COPY'')]"

definition reverse_find :: "byte \<Rightarrow> string option" where
  "reverse_find b = map_of ReverseTokenMap b"

text \<open>
  \<^verbatim>\<open>BasParser::DecodeLineData\<close>: the loop \<^verbatim>\<open>for (int i = start; i < end; i++)\<close>, with the
  text appended to the string stream returned in front of the text of the later
  iterations. \<^verbatim>\<open>smart_space\<close> is the block under "SMART SPACING LOGIC"; \<open>CHR 0x22\<close> is the
  double quote. \<^verbatim>\<open>Parse\<close> calls the function with \<open>end \<le> data.size()\<close>, so every
  \<open>data ! nat i\<close> read here is in range.
\<close>

definition smart_space :: "byte list \<Rightarrow> int \<Rightarrow> int \<Rightarrow> string" where
  "smart_space data i endi =
    (if i + 1 < endi then
       (let next = data ! nat (i + 1) in
        if next < 128 \<and> next \<noteq> 0x0E then
          (let c = char_of_byte next in
           if isalnum c \<or> c = CHR 0x22 \<or> c = CHR ''.'' then [CHR '' ''] else [])
        else [])
     else [])"

function DecodeLineData_loop :: "byte list \<Rightarrow> int \<Rightarrow> int \<Rightarrow> string" where
  "DecodeLineData_loop data i endi =
    (if i < endi then
       (let b = data ! nat i in
        if b = 0x0E then DecodeLineData_loop data (i + 5 + 1) endi
        else
          (case reverse_find b of
             Some keyword \<Rightarrow>
               keyword @ smart_space data i endi @ DecodeLineData_loop data (i + 1) endi
           | None \<Rightarrow>
               (if b \<ge> 32 \<and> b \<le> 126 then [char_of_byte b]
                else if b = 0x7F then [CHR 0xC2, CHR 0xA9]
                else [])
               @ DecodeLineData_loop data (i + 1) endi))
     else [])"
  by pat_completeness auto
termination
  by (relation "measure (\<lambda>(data, i, endi). nat (endi - i))") auto

declare DecodeLineData_loop.simps [simp del]

definition DecodeLineData :: "byte list \<Rightarrow> int \<Rightarrow> int \<Rightarrow> string" where
  "DecodeLineData data start len = DecodeLineData_loop data start (start + len)"

text \<open>
  \<^verbatim>\<open>operator<<\<close> of a non-negative \<^verbatim>\<open>int\<close>: its decimal digits. Line numbers and the
  autostart field are 16-bit values, never negative.
\<close>

fun string_of_nat :: "nat \<Rightarrow> string" where
  "string_of_nat n =
    (if n < 10 then [char_of (48 + n)]
     else string_of_nat (n div 10) @ [char_of (48 + n mod 10)])"

declare string_of_nat.simps [simp del]

text \<open>
  \<^verbatim>\<open>BasParser::Parse\<close>. \<^verbatim>\<open>Parse_body\<close> is one iteration of \<^verbatim>\<open>while (offset < data.size())\<close>:
  \<open>None\<close> when the loop is left (the condition fails or one of the two \<^verbatim>\<open>break\<close>s is
  taken), otherwise the new cursor and the stream with the line appended. \<^verbatim>\<open>offset\<close> is
  a \<^verbatim>\<open>size_t\<close>; past the first \<^verbatim>\<open>break\<close> it is at least 4 after the two increments, so
  \<^verbatim>\<open>offset + lineLen - 1\<close> does not wrap. \<open>CHR 0x0A\<close> is the newline. \<^verbatim>\<open>read_lineNum\<close> is the
  expression \<^verbatim>\<open>(data[offset] << 8) | data[offset + 1]\<close> and \<^verbatim>\<open>read_lineLen\<close> the expression
  \<^verbatim>\<open>data[offset] | (data[offset + 1] << 8)\<close>, each at the cursor where the source reads it.
\<close>

definition read_lineNum :: "byte list \<Rightarrow> nat \<Rightarrow> nat" where
  "read_lineNum data offset = push_bit 8 (unat (data ! offset)) OR unat (data ! (offset + 1))"

definition read_lineLen :: "byte list \<Rightarrow> nat \<Rightarrow> nat" where
  "read_lineLen data offset = unat (data ! offset) OR push_bit 8 (unat (data ! (offset + 1)))"

definition Parse_body :: "byte list \<Rightarrow> nat \<Rightarrow> string \<Rightarrow> (nat \<times> string) option" where
  "Parse_body data offset sb =
    (if offset < length data then
       (if offset + 4 > length data then None
        else
          (let lineNum = read_lineNum data offset;
               offset = offset + 2;
               lineLen = read_lineLen data offset;
               offset = offset + 2
           in if offset + lineLen - 1 > length data then None
              else
                (let lineContent = DecodeLineData data (int offset) (int lineLen - 1)
                 in Some (offset + lineLen,
                          sb @ string_of_nat lineNum @ [CHR '' ''] @ lineContent @ [CHR 0x0A]))))
     else None)"

partial_function (option) Parse_loop :: "byte list \<Rightarrow> nat \<Rightarrow> string \<Rightarrow> string option" where
  "Parse_loop data offset sb =
    (case Parse_body data offset sb of
       None \<Rightarrow> Some sb
     | Some (offset', sb') \<Rightarrow> Parse_loop data offset' sb')"

declare Parse_loop.simps [code]

definition Parse :: "byte list \<Rightarrow> string option" where
  "Parse data =
    (let (offset, sb) =
       (if length data \<ge> 128 then
          (let signature = map char_of_byte (take 8 data) in
           if signature = ''PLUS3DOS'' \<or> take 7 signature = ''ZXPLUS3'' then
             (let autoStart = unat (data ! 18) OR push_bit 8 (unat (data ! 19)) in
              (128, if autoStart \<noteq> 32768
                    then ''#autostart '' @ string_of_nat autoStart @ [CHR 0x0A]
                    else []))
           else (0, []))
        else (0, []))
     in Parse_loop data offset sb)"

section \<open>txt2bas: numbers\<close>

text \<open>
  A \<^verbatim>\<open>double\<close> is modelled by the rational number it holds. Only finite values occur:
  \<^verbatim>\<open>Pack\<close> is called on results of \<^verbatim>\<open>std::stod\<close> alone, which throws instead of returning
  an infinity. \<^verbatim>\<open>std::modf(number, &intPart) == 0.0\<close> holds when the value is integral, and
  \<^verbatim>\<open>static_cast<int>\<close> truncates towards zero.
\<close>

type_synonym double = rat

definition static_cast_int :: "double \<Rightarrow> int" where
  "static_cast_int x = (if x < 0 then \<lceil>x\<rceil> else \<lfloor>x\<rfloor>)"

definition Pack :: "double \<Rightarrow> byte list" where
  "Pack number =
    (if frac number = 0 \<and> number \<ge> -65535 \<and> number \<le> 65535 then
       (let val = static_cast_int number;
            sign = (if val < 0 then 0xFF else 0x00 :: byte);
            val = (if val < 0 then - val else val)
        in [0x00, sign, static_cast_uint8 (val AND 0xFF),
            static_cast_uint8 (drop_bit 8 val AND 0xFF), 0x00])
     else [0, 0, 0, 0, 0])"

text \<open>
  \<^verbatim>\<open>std::stod\<close> on the run of digits and periods that \<^verbatim>\<open>ParseLine\<close> hands it. As \<^verbatim>\<open>strtod\<close>
  does, it converts the longest prefix of the form digits, optional period, digits
  (\<^verbatim>\<open>strtod_prefix\<close>), rounds the decimal value to the nearest binary64 number, ties to even
  (\<^verbatim>\<open>round_binary64\<close>), and throws (\<open>None\<close>) when the prefix holds no digit, when the
  rounded value overflows, and when the value is nonzero but below the normal range
  (\<^verbatim>\<open>strtod\<close> reports \<^verbatim>\<open>ERANGE\<close> and \<^verbatim>\<open>std::stod\<close> throws \<^verbatim>\<open>std::out_of_range\<close>).
  In \<^verbatim>\<open>round_binary64\<close>, \<open>e\<close> is the binary exponent of the value and \<open>n\<close> its 53-bit
  significand after rounding, between \<open>2^52\<close> and \<open>2^53 = 9007199254740992\<close>; the rounded
  value \<open>n * 2^(e - 52)\<close> reaches \<open>2^1024\<close>, the overflow threshold, when \<open>e\<close> is above 1023
  or \<open>e = 1023\<close> and \<open>n = 2^53\<close>.
\<close>

definition decimal_value :: "string \<Rightarrow> int" where
  "decimal_value ds = foldl (\<lambda>acc c. 10 * acc + (of_char c - 48)) 0 ds"

definition strtod_prefix :: "string \<Rightarrow> string \<times> string" where
  "strtod_prefix s =
    (let ip = takeWhile isdigit s in
     case drop (length ip) s of
       [] \<Rightarrow> (ip, [])
     | c # r \<Rightarrow> if c = CHR ''.'' then (ip, takeWhile isdigit r) else (ip, []))"

definition pow2 :: "int \<Rightarrow> rat" where
  "pow2 k = (if k \<ge> 0 then 2 ^ nat k else 1 / 2 ^ nat (- k))"

definition floor_log2 :: "rat \<Rightarrow> int" where
  "floor_log2 x =
    (let (p, q) = quotient_of x;
         a = bitlen p - 1;
         b = bitlen q - 1
     in if p * 2 ^ nat b \<ge> q * 2 ^ nat a then a - b else a - b - 1)"

definition round_half_even :: "rat \<Rightarrow> int" where
  "round_half_even m =
    (let f = \<lfloor>m\<rfloor>; r = m - of_int f
     in if r < 1 / 2 then f else if r > 1 / 2 then f + 1 else if even f then f else f + 1)"

definition round_binary64 :: "rat \<Rightarrow> double option" where
  "round_binary64 x =
    (if x = 0 then Some 0
     else
       (let e = floor_log2 \<bar>x\<bar>;
            n = round_half_even (\<bar>x\<bar> * pow2 (52 - e));
            v = of_int n * pow2 (e - 52)
        in if e < -1022 \<or> e > 1023 \<or> (e = 1023 \<and> n \<ge> 9007199254740992) then None
           else Some (if x < 0 then - v else v)))"

definition stod :: "string \<Rightarrow> double option" where
  "stod s =
    (let (ip, fp) = strtod_prefix s in
     if ip = [] \<and> fp = [] then None
     else round_binary64
            (of_int (decimal_value ip) + of_int (decimal_value fp) / 10 ^ length fp))"

section \<open>txt2bas: the token table\<close>

text \<open>
  \<^verbatim>\<open>TokenMap::TokenMap\<close> (txt2bas.cpp): the assignments in the order of the source; the keys
  are distinct. \<^verbatim>\<open>token_of\<close> is \<^verbatim>\<open>_tokenMap.Map[k]\<close>, which yields 0 for a key that is absent.
\<close>

definition TokenMap :: "(string \<times> byte) list" where
  "TokenMap =
    [
     (''PEEK$'', 0x87), (''REG'', 0x88), (''DPOKE'', 0x89), (''DPEEK'', 0x8A),
     (''MOD'', 0x8B), (''<<'', 0x8C), (''>>'', 0x8D), (''UNTIL'', 0x8E),
     (''ERROR'', 0x8F), (''ON'', 0x90), (''DEFPROC'', 0x91), (''ENDPROC'', 0x92),
     (''PROC'', 0x93), (''LOCAL'', 0x94), (''DRIVER'', 0x95), (''WHILE'', 0x96),
     (''REPEAT'', 0x97), (''ELSE'', 0x98), (''REMOUNT'', 0x99), (''BANK'', 0x9A),
     (''TILE'', 0x9B), (''LAYER'', 0x9C), (''PALETTE'', 0x9D), (''SPRITE'', 0x9E),
     (''PWD'', 0x9F), (''CD'', 0xA0), (''MKDIR'', 0xA1), (''RMDIR'', 0xA2),
     (''SPECTRUM'', 0xA3), (''PLAY'', 0xA4), (''RND'', 0xA5), (''INKEY$'', 0xA6),
     (''PI'', 0xA7), (''FN'', 0xA8), (''POINT'', 0xA9), (''SCREEN$'', 0xAA),
     (''ATTR'', 0xAB), (''AT'', 0xAC), (''TAB'', 0xAD), (''VAL$'', 0xAE),
     (''CODE'', 0xAF), (''VAL'', 0xB0), (''LEN'', 0xB1), (''SIN'', 0xB2),
     (''COS'', 0xB3), (''TAN'', 0xB4), (''ASN'', 0xB5), (''ACS'', 0xB6),
     (''ATN'', 0xB7), (''LN'', 0xB8), (''EXP'', 0xB9), (''INT'', 0xBA),
     (''SQR'', 0xBB), (''SGN'', 0xBC), (''ABS'', 0xBD), (''PEEK'', 0xBE),
     (''IN'', 0xBF), (''USR'', 0xC0), (''STR$'', 0xC1), (''CHR$'', 0xC2),
     (''NOT'', 0xC3), (''BIN'', 0xC4), (''OR'', 0xC5), (''AND'', 0xC6),
     (''<='', 0xC7), (''>='', 0xC8), (''<>'', 0xC9), (''LINE'', 0xCA),
     (''THEN'', 0xCB), (''TO'', 0xCC), (''STEP'', 0xCD), (''DEF FN'', 0xCE),
     (''CAT'', 0xCF), (''FORMAT'', 0xD0), (''MOVE'', 0xD1), (''ERASE'', 0xD2),
     (''OPEN #'', 0xD3), (''CLOSE #'', 0xD4), (''MERGE'', 0xD5), (''VERIFY'', 0xD6),
     (''BEEP'', 0xD7), (''CIRCLE'', 0xD8), (''INK'', 0xD9), (''PAPER'', 0xDA),
     (''FLASH'', 0xDB), (''BRIGHT'', 0xDC), (''INVERSE'', 0xDD), (''OVER'', 0xDE),
     (''OUT'', 0xDF), (''LPRINT'', 0xE0), (''LLIST'', 0xE1), (''STOP'', 0xE2),
     (''READ'', 0xE3), (''DATA'', 0xE4), (''RESTORE'', 0xE5), (''NEW'', 0xE6),
     (''BORDER'', 0xE7), (''CONTINUE'', 0xE8), (''DIM'', 0xE9), (''REM'', 0xEA),
     (''FOR'', 0xEB), (''GO TO'', 0xEC), (''GOTO'', 0xEC), (''GO SUB'', 0xED),
     (''GOSUB'', 0xED), (''INPUT'', 0xEE), (''LOAD'', 0xEF), (''LIST'', 0xF0),
     (''LET'', 0xF1), (''PAUSE'', 0xF2), (''NEXT'', 0xF3), (''POKE'', 0xF4),
     (''PRINT'', 0xF5), (''PLOT'', 0xF6), (''RUN'', 0xF7), (''SAVE'', 0xF8),
     (''RANDOMIZE'', 0xF9), (''IF'', 0xFA), (''CLS'', 0xFB), (''DRAW'', 0xFC),
     (''CLEAR'', 0xFD), (''RETURN'', 0xFE), (''COPY'', 0xFF)]"

definition token_of :: "string \<Rightarrow> byte" where
  "token_of k = (case map_of TokenMap k of Some token \<Rightarrow> token | None \<Rightarrow> 0)"

text \<open>
  \<^verbatim>\<open>BasConverter::BasConverter\<close> sorts the keys by \<^verbatim>\<open>a.length() > b.length()\<close>. \<^verbatim>\<open>std::sort\<close>
  and the iteration order of the \<^verbatim>\<open>unordered_map\<close> leave the order of keys of equal length
  open: \<^verbatim>\<open>sortedKeys_ok\<close> holds of every list the constructor can produce, and \<^verbatim>\<open>sortedKeys\<close>
  is one of them (the stable sort of the keys in source order). The search for a key in
  \<^verbatim>\<open>ParseLine\<close> gives the same key for every such list (lemma \<open>find_key_any_order\<close>).
\<close>

definition sortedKeys_ok :: "string list \<Rightarrow> bool" where
  "sortedKeys_ok ks =
    (set ks = set (map fst TokenMap) \<and>
     sorted_wrt (\<lambda>a b. length a \<ge> length b) ks)"

definition sortedKeys :: "string list" where
  "sortedKeys = sort_key (\<lambda>k. - int (length k)) (map fst TokenMap)"

definition CaseInsensitiveEquals :: "string \<Rightarrow> string \<Rightarrow> bool" where
  "CaseInsensitiveEquals a b =
    (if length a \<noteq> length b then False
     else list_all2 (\<lambda>c1 c2. toupper c1 = toupper c2) a b)"

section \<open>txt2bas: tokenizing a line\<close>

text \<open>
  \<^verbatim>\<open>substr\<close>, \<^verbatim>\<open>find_char\<close> (\<^verbatim>\<open>text.find(c, pos)\<close>, \<open>None\<close> for \<^verbatim>\<open>npos\<close>), and the pieces of
  \<^verbatim>\<open>BasConverter::ParseLine\<close>: the test that starts a number, the index \<^verbatim>\<open>j\<close> after the
  \<^verbatim>\<open>while\<close> loop that collects \<^verbatim>\<open>numStr\<close>, the test one key passes in the loop over
  \<^verbatim>\<open>_sortedKeys\<close> (both \<^verbatim>\<open>continue\<close>s not taken), and the loop that skips spaces.
\<close>

definition substr :: "string \<Rightarrow> nat \<Rightarrow> nat \<Rightarrow> string" where
  "substr text pos n = take n (drop pos text)"

definition find_char :: "string \<Rightarrow> char \<Rightarrow> nat \<Rightarrow> nat option" where
  "find_char text c pos = List.find (\<lambda>j. text ! j = c) [pos..<length text]"

definition is_number_start :: "string \<Rightarrow> nat \<Rightarrow> bool" where
  "is_number_start text i =
    (isdigit (text ! i) \<or>
     (text ! i = CHR ''.'' \<and> i + 1 < length text \<and> isdigit (text ! (i + 1))))"

definition number_end :: "string \<Rightarrow> nat \<Rightarrow> nat" where
  "number_end text i = i + length (takeWhile (\<lambda>c. isdigit c \<or> c = CHR ''.'') (drop i text))"

definition key_matches :: "string \<Rightarrow> nat \<Rightarrow> string \<Rightarrow> bool" where
  "key_matches text i k =
    (if i + length k > length text then False
     else if \<not> CaseInsensitiveEquals (substr text i (length k)) k then False
     else
       (let isAlpha = isalpha (k ! 0);
            prevOk = (i = 0 \<or> \<not> isalpha (text ! (i - 1)));
            nextOk = (i + length k \<ge> length text \<or> \<not> isalnum (text ! (i + length k)))
        in \<not> (isAlpha \<and> (\<not> prevOk \<or> \<not> nextOk))))"

definition find_key :: "string list \<Rightarrow> string \<Rightarrow> nat \<Rightarrow> string option" where
  "find_key ks text i = List.find (key_matches text i) ks"

definition skip_spaces :: "string \<Rightarrow> nat \<Rightarrow> nat" where
  "skip_spaces text i = i + length (takeWhile (\<lambda>c. c = CHR '' '') (drop i text))"

lemma find_char_bounds:
  "find_char text c pos = Some j \<Longrightarrow> pos \<le> j \<and> j < length text \<and> text ! j = c"
  by (auto simp: find_char_def find_Some_iff)

lemma number_end_gt:
  "i < length text \<Longrightarrow> is_number_start text i \<Longrightarrow> i < number_end text i"
  by (cases "drop i text") (auto simp: is_number_start_def number_end_def hd_drop_conv_nth
      dest!: arg_cong[where f = hd])

lemma set_sortedKeys: "set sortedKeys = set (map fst TokenMap)"
  by (simp add: sortedKeys_def)

lemma TokenMap_keys_nonempty: "[] \<notin> set (map fst TokenMap)"
  by (simp add: TokenMap_def)

lemma sortedKeys_nonempty: "k \<in> set sortedKeys \<Longrightarrow> k \<noteq> []"
  using TokenMap_keys_nonempty by (auto simp only: set_sortedKeys)

lemma find_key_sortedKeys_nonempty: "find_key sortedKeys text i = Some k \<Longrightarrow> 0 < length k"
  using sortedKeys_nonempty by (auto simp: find_key_def find_Some_iff)

lemma skip_spaces_ge: "i \<le> skip_spaces text i"
  by (simp add: skip_spaces_def)

lemma find_key_sortedKeys_advance:
  "find_key sortedKeys s i = Some k \<Longrightarrow> i < skip_spaces s (i + length k)"
  using find_key_sortedKeys_nonempty[of s i k] skip_spaces_ge[of "i + length k" s]
  by linarith

text \<open>
  The loop \<^verbatim>\<open>for (size_t i = 0; i < text.length(); i++)\<close> of \<^verbatim>\<open>ParseLine\<close>, from index \<open>i\<close>:
  the bytes pushed to \<^verbatim>\<open>lineData\<close> from there on. Each branch of the source sets \<^verbatim>\<open>i\<close> to
  one less than the next index to visit and lets the loop increment it; the model passes
  the next index. A failing \<^verbatim>\<open>std::stod\<close> is caught and the keys are tried. For the token of
  \<^verbatim>\<open>REM\<close> and for an unterminated string the rest of the line is copied and the loop ends.
\<close>

function ParseLine_loop :: "string \<Rightarrow> nat \<Rightarrow> byte list" where
  "ParseLine_loop text i =
    (if i < length text then
       (if text ! i = CHR 0x22 then
          (case find_char text (CHR 0x22) (i + 1) of
             None \<Rightarrow> bytes_of_string (drop i text)
           | Some endq \<Rightarrow>
               bytes_of_string (substr text i (endq - i + 1)) @ ParseLine_loop text (endq + 1))
        else
          (case (if is_number_start text i
                 then stod (substr text i (number_end text i - i)) else None) of
             Some val \<Rightarrow>
               bytes_of_string (substr text i (number_end text i - i)) @ [0x0E] @ Pack val
               @ ParseLine_loop text (number_end text i)
           | None \<Rightarrow>
               (case find_key sortedKeys text i of
                  Some k \<Rightarrow>
                    (let token = token_of k; i' = i + length k in
                     if token = 0xEA then
                       token # (if i' < length text then bytes_of_string (drop i' text) else [])
                     else token # ParseLine_loop text (skip_spaces text i'))
                | None \<Rightarrow> byte_of_char (text ! i) # ParseLine_loop text (i + 1))))
     else [])"
  by pat_completeness auto
termination
proof (relation "measure (\<lambda>(text, i). length text - i)", goal_cases)
  case 1
  show ?case by simp
next
  case (2 s i endq)
  then show ?case using find_char_bounds[of s "CHR 0x22" "i + 1" endq] by auto
next
  case (3 s i)
  then show ?case by auto
next
  case (4 s i k token i')
  then show ?case using find_key_sortedKeys_advance[of s i k] by auto
next
  case (5 s i val)
  then show ?case using number_end_gt[of i s] by (auto split: if_splits)
qed

declare ParseLine_loop.simps [simp del]

text \<open>
  \<^verbatim>\<open>ParseLine\<close>: the terminator and the record header in front of the payload.
\<close>

definition ParseLine :: "int \<Rightarrow> string \<Rightarrow> byte list" where
  "ParseLine lineNum text =
    (let lineData = ParseLine_loop text 0 @ [0x0D];
         len = int (length lineData)
     in [static_cast_uint8 (drop_bit 8 lineNum AND 0xFF), static_cast_uint8 (lineNum AND 0xFF),
         static_cast_uint8 (len AND 0xFF), static_cast_uint8 (drop_bit 8 len AND 0xFF)]
        @ lineData)"

section \<open>txt2bas: converting a file\<close>

text \<open>
  \<^verbatim>\<open>BasConverter::ConvertFile\<close> on the lines that \<^verbatim>\<open>std::getline\<close> reads from the file. The
  state is the vector \<^verbatim>\<open>output\<close> (\<^verbatim>\<open>output_bytes\<close>), \<^verbatim>\<open>currentLineNum\<close> and the member \<^verbatim>\<open>AutoStartLine\<close>.
  \<^item> \<^verbatim>\<open>trim\<close>: the two \<^verbatim>\<open>erase\<close> calls.
  \<^item> \<^verbatim>\<open>extract_int\<close>: \<^verbatim>\<open>iss >> val\<close> for an \<^verbatim>\<open>int\<close>: white space is skipped, then an optional
    sign and the decimal digits are read; it fails (\<open>None\<close>) when there is no digit or the
    value does not fit an \<^verbatim>\<open>int\<close>.
  \<^item> \<^verbatim>\<open>lineRegex\<close>: \<^verbatim>\<open>std::regex_search\<close> with the pattern of \<^verbatim>\<open>lineRegex\<close> (at the start of the
    line one or more digits, one or more white-space characters, then any characters),
    giving the two groups; the period of the ECMAScript grammar does not match a line
    terminator.
  \<^item> \<^verbatim>\<open>stoi\<close>: \<^verbatim>\<open>std::stoi\<close> on a run of digits, which throws \<^verbatim>\<open>std::out_of_range\<close> above
    \<^verbatim>\<open>INT_MAX\<close>; the exception leaves \<^verbatim>\<open>ConvertFile\<close>.
\<close>

datatype error = out_of_range

record converter =
  output_bytes :: "byte list"
  currentLineNum :: int
  AutoStartLine :: int

definition is_trim_char :: "char \<Rightarrow> bool" where
  "is_trim_char c = (c = CHR '' '' \<or> c = CHR 0x09 \<or> c = CHR 0x0D \<or> c = CHR 0x0A)"

definition trim :: "string \<Rightarrow> string" where
  "trim line = rev (dropWhile is_trim_char (rev (dropWhile is_trim_char line)))"

definition extract_int :: "string \<Rightarrow> int option" where
  "extract_int s =
    (let s1 = dropWhile isspace s;
         negative = (s1 \<noteq> [] \<and> hd s1 = CHR ''-'');
         s2 = (if s1 \<noteq> [] \<and> (hd s1 = CHR ''-'' \<or> hd s1 = CHR ''+'') then tl s1 else s1);
         ds = takeWhile isdigit s2
     in if ds = [] then None
        else
          (let v = (if negative then - decimal_value ds else decimal_value ds)
           in if v < - 2147483648 \<or> v > 2147483647 then None else Some v))"

definition lineRegex :: "string \<Rightarrow> (string \<times> string) option" where
  "lineRegex line =
    (let ds = takeWhile isdigit line;
         r = drop (length ds) line;
         ws = takeWhile isspace r;
         r2 = drop (length ws) r
     in if ds = [] \<or> ws = [] then None
        else Some (ds, takeWhile (\<lambda>c. c \<noteq> CHR 0x0A \<and> c \<noteq> CHR 0x0D) r2))"

definition stoi :: "string \<Rightarrow> error + int" where
  "stoi ds =
    (if decimal_value ds > 2147483647 then Inl out_of_range
     else Inr (decimal_value ds))"

definition ConvertFile_line :: "converter \<Rightarrow> string \<Rightarrow> error + converter" where
  "ConvertFile_line st line0 =
    (let line = trim line0 in
     if line = [] then Inr st
     else if line ! 0 = CHR ''#'' then
       (let lowerLine = map tolower line in
        if take 10 lowerLine = ''#autostart'' then
          (let rest = dropWhile (\<lambda>c. \<not> isspace c) line in
           case extract_int rest of
             Some val \<Rightarrow> Inr (st\<lparr>AutoStartLine := val\<rparr>)
           | None \<Rightarrow> Inr st)
        else Inr st)
     else
       (case lineRegex line of
          Some (m1, m2) \<Rightarrow>
            (case stoi m1 of
               Inl e \<Rightarrow> Inl e
             | Inr lineNum \<Rightarrow>
                 Inr (st\<lparr>output_bytes := output_bytes st @ ParseLine lineNum m2,
                         currentLineNum := lineNum + 10\<rparr>))
        | None \<Rightarrow>
            Inr (st\<lparr>output_bytes := output_bytes st @ ParseLine (currentLineNum st) line,
                    currentLineNum := currentLineNum st + 10\<rparr>)))"

fun ConvertFile_lines :: "converter \<Rightarrow> string list \<Rightarrow> error + converter" where
  "ConvertFile_lines st [] = Inr st"
| "ConvertFile_lines st (line # lines) =
    (case ConvertFile_line st line of
       Inl e \<Rightarrow> Inl e
     | Inr st' \<Rightarrow> ConvertFile_lines st' lines)"

definition ConvertFile :: "string list \<Rightarrow> error + converter" where
  "ConvertFile lines =
    ConvertFile_lines \<lparr>output_bytes = [], currentLineNum = 10, AutoStartLine = 32768\<rparr> lines"

text \<open>
  \<^verbatim>\<open>main\<close> of txt2bas: the bytes written to the output file, the header in front of the
  program.
\<close>

definition txt2bas :: "string list \<Rightarrow> error + byte list" where
  "txt2bas lines =
    (case ConvertFile lines of
       Inl e \<Rightarrow> Inl e
     | Inr st \<Rightarrow> Inr (CreateHeader (int (length (output_bytes st))) (AutoStartLine st) @ output_bytes st))"

section \<open>Properties of the header\<close>

lemma checksum_loop_sum: "checksum_loop h = (\<Sum>i<127. uint (h ! i))"
proof -
  have "fold (\<lambda>i sum. sum + uint (h ! i)) [0..<n] a = a + (\<Sum>i<n. uint (h ! i))" for n a
    by (induction n arbitrary: a) (simp_all add: algebra_simps)
  then show ?thesis by (simp add: checksum_loop_def)
qed

lemma checksum_loop_update_127: "checksum_loop (h[127 := v]) = checksum_loop h"
  by (simp add: checksum_loop_sum)

text \<open>
  Claim C4. For every data length and autostart argument, byte 127 of the header built by
  \<^verbatim>\<open>CreateHeader\<close> is the sum of the bytes 0 to 126 of that header, modulo 256.
\<close>

theorem CreateHeader_checksum:
  "uint (CreateHeader basicLength autoStartLine ! 127) =
     (\<Sum>i<127. uint (CreateHeader basicLength autoStartLine ! i)) mod 256"
  unfolding CreateHeader_def Let_def
  apply (simp only: checksum_loop_sum[symmetric] checksum_loop_update_127)
  apply (subst nth_list_update_eq)
   apply (simp add: bytes_of_string_def)
  apply (simp add: static_cast_uint8_def uint_word_of_int)
  done

text \<open>
  Claim C9. For every autostart argument outside 0..32767 (negative, or 32768 and above,
  the default 32768 included) the header carries the sentinel 32768 in the autostart
  field: byte 0x00 at offset 18 and byte 0x80 at offset 19.
\<close>

theorem CreateHeader_autostart_sentinel:
  "\<not> (0 \<le> autoStartLine \<and> autoStartLine < 32768) \<Longrightarrow>
     CreateHeader basicLength autoStartLine ! 18 = 0x00 \<and>
     CreateHeader basicLength autoStartLine ! 19 = 0x80"
  unfolding CreateHeader_def Let_def
  by (auto simp add: bytes_of_string_def static_cast_uint8_def)

theorem CreateHeader_autostart_sentinel_witness:
  "(CreateHeader 10 32768 ! 18 = 0x00 \<and> CreateHeader 10 32768 ! 19 = 0x80) \<and>
   (CreateHeader 10 (-1) ! 18 = 0x00 \<and> CreateHeader 10 (-1) ! 19 = 0x80) \<and>
   (CreateHeader 10 40000 ! 18 = 0x00 \<and> CreateHeader 10 40000 ! 19 = 0x80)"
  using CreateHeader_autostart_sentinel [of 32768 10]
    CreateHeader_autostart_sentinel [of "-1" 10]
    CreateHeader_autostart_sentinel [of 40000 10]
  by simp

section \<open>Properties of the decoder\<close>

lemma Parse_body_advance:
  "Parse_body data offset sb = Some (offset', sb') \<Longrightarrow>
     offset < length data \<and> offset + 4 \<le> offset' \<and> offset' \<le> length data + 1"
  by (auto simp: Parse_body_def Let_def split: if_splits)

lemma Parse_loop_total: "\<exists>out. Parse_loop data offset sb = Some out"
proof (induction "length data - offset" arbitrary: offset sb rule: less_induct)
  case less
  show ?case
  proof (cases "Parse_body data offset sb")
    case None
    then show ?thesis by (subst Parse_loop.simps) simp
  next
    case (Some p)
    obtain offset' sb' where p: "p = (offset', sb')" by (cases p)
    from Some p Parse_body_advance have "offset + 4 \<le> offset'" "offset < length data"
      by blast+
    then have "length data - offset' < length data - offset" by arith
    from less[OF this] obtain out where "Parse_loop data offset' sb' = Some out" by blast
    then show ?thesis using Some p by (subst Parse_loop.simps) simp
  qed
qed

lemma Parse_total: "\<exists>out. Parse data = Some out"
  unfolding Parse_def Let_def by (simp add: Parse_loop_total split: prod.splits)

text \<open>
  Claim C10. The record-reading loop of the decoder terminates on every byte buffer: an
  iteration that does not leave the loop starts inside the buffer and moves the cursor
  forward by at least the 4 header bytes of its record (also when the declared length is
  0), so the loop returns a text from every cursor and every buffer, and so does
  \<^verbatim>\<open>Parse\<close>.
\<close>

theorem Parse_loop_terminates:
  "(\<forall>offset sb offset' sb'.
      Parse_body data offset sb = Some (offset', sb') \<longrightarrow>
        offset < length data \<and> offset + 4 \<le> offset') \<and>
   (\<exists>out. Parse_loop data offset0 sb0 = Some out) \<and>
   (\<exists>out. Parse data = Some out)"
  using Parse_body_advance Parse_loop_total Parse_total by blast

theorem Parse_loop_terminates_witness:
  "Parse_body [0x00, 0x0A, 0x00, 0x00, 0x00, 0x14, 0x02, 0x00, 0x41, 0x0D] 0 [] =
     Some (4, ''10 '' @ [CHR 0x0A]) \<and>
   (0 :: nat) < length [0x00, 0x0A, 0x00, 0x00, 0x00, 0x14, 0x02, 0x00, 0x41, 0x0D :: byte] \<and>
   (0 :: nat) + 4 \<le> 4 \<and>
   Parse [0x00, 0x0A, 0x00, 0x00, 0x00, 0x14, 0x02, 0x00, 0x41, 0x0D] =
     Some (''10 '' @ [CHR 0x0A] @ ''20 A'' @ [CHR 0x0A])"
proof -
  let ?D = "[0x00, 0x0A, 0x00, 0x00, 0x00, 0x14, 0x02, 0x00, 0x41, 0x0D] :: byte list"
  have b: "Parse_body ?D 0 [] = Some (4, ''10 '' @ [CHR 0x0A])"
    by code_simp
  have "\<forall>offset sb offset' sb'.
      Parse_body ?D offset sb = Some (offset', sb') \<longrightarrow>
        offset < length ?D \<and> offset + 4 \<le> offset'"
    using Parse_loop_terminates [of ?D 0 "[]"] by (rule conjunct1)
  with b have "0 < length ?D \<and> (0 :: nat) + 4 \<le> 4" by blast
  moreover have "Parse ?D = Some (''10 '' @ [CHR 0x0A] @ ''20 A'' @ [CHR 0x0A])"
    by code_simp
  ultimately show ?thesis using b by blast
qed

text \<open>
  Claim C3, as stated, fails. The buffer below holds one record of declared length 2 with
  a single byte left after its 4 header bytes: the declared length exceeds the bytes
  remaining, yet the decoder does not stop and the payload byte \<open>A\<close> reaches the output.
  The test \<^verbatim>\<open>offset + lineLen - 1 > data.size()\<close> allows for the terminator, which is never
  read.
\<close>

theorem Parse_truncated_by_one_counterexample:
  "read_lineLen [0x00, 0x0A, 0x02, 0x00, 0x41] 2 = 2 \<and>
   length [0x00, 0x0A, 0x02, 0x00, 0x41 :: byte] - 4 = 1 \<and>
   Parse [0x00, 0x0A, 0x02, 0x00, 0x41] = Some (''10 A'' @ [CHR 0x0A])"
  by code_simp

text \<open>
  Claim C3, amended. When the decoder reads a record whose declared length exceeds the
  bytes remaining after its 4-byte header by more than one (the payload without its
  terminator does not fit), it stops at that record and returns the text accumulated
  from the records decoded before, as a value and not as an error: nothing of the
  truncated record is appended.
\<close>

theorem Parse_loop_truncated_record:
  "offset + 4 \<le> length data \<Longrightarrow>
   read_lineLen data (offset + 2) > length data - (offset + 4) + 1 \<Longrightarrow>
   Parse_loop data offset sb = Some sb"
proof -
  assume "offset + 4 \<le> length data"
    and "read_lineLen data (offset + 2) > length data - (offset + 4) + 1"
  then have "Parse_body data offset sb = None"
    unfolding Parse_body_def Let_def by auto
  then show ?thesis by (subst Parse_loop.simps) simp
qed

theorem Parse_loop_truncated_record_witness:
  "(6 :: nat) + 4 \<le>
     length [0x00, 0x0A, 0x02, 0x00, 0x41, 0x0D, 0x00, 0x14, 0x05, 0x00, 0x42 :: byte] \<and>
   read_lineLen [0x00, 0x0A, 0x02, 0x00, 0x41, 0x0D, 0x00, 0x14, 0x05, 0x00, 0x42] (6 + 2) >
     length [0x00, 0x0A, 0x02, 0x00, 0x41, 0x0D, 0x00, 0x14, 0x05, 0x00, 0x42 :: byte]
       - (6 + 4) + 1 \<and>
   Parse_body [0x00, 0x0A, 0x02, 0x00, 0x41, 0x0D, 0x00, 0x14, 0x05, 0x00, 0x42] 0 [] =
     Some (6, ''10 A'' @ [CHR 0x0A]) \<and>
   Parse_loop [0x00, 0x0A, 0x02, 0x00, 0x41, 0x0D, 0x00, 0x14, 0x05, 0x00, 0x42] 6
       (''10 A'' @ [CHR 0x0A]) =
     Some (''10 A'' @ [CHR 0x0A])"
proof -
  let ?D = "[0x00, 0x0A, 0x02, 0x00, 0x41, 0x0D, 0x00, 0x14, 0x05, 0x00, 0x42] :: byte list"
  have h1: "(6 :: nat) + 4 \<le> length ?D" by simp
  have h2: "read_lineLen ?D (6 + 2) > length ?D - (6 + 4) + 1" by code_simp
  have b: "Parse_body ?D 0 [] = Some (6, ''10 A'' @ [CHR 0x0A])" by code_simp
  show ?thesis
    using h1 h2 b Parse_loop_truncated_record [OF h1 h2, of "''10 A'' @ [CHR 0x0A]"]
    by blast
qed

lemma ReverseTokenMap_codes: "list_all (\<lambda>p. 0x87 \<le> fst p) ReverseTokenMap"
  by code_simp

lemma reverse_find_ge: "reverse_find b = Some keyword \<Longrightarrow> 0x87 \<le> b"
proof -
  assume "reverse_find b = Some keyword"
  then have "(b, keyword) \<in> set ReverseTokenMap"
    unfolding reverse_find_def by (rule map_of_SomeD)
  with ReverseTokenMap_codes show ?thesis
    by (auto simp: list_all_iff)
qed

lemma reverse_find_lt128: "b < 128 \<Longrightarrow> reverse_find b = None"
proof (cases "reverse_find b")
  case None
  then show ?thesis .
next
  case (Some keyword)
  from reverse_find_ge[OF this] have "0x87 \<le> b" .
  moreover assume "b < 128"
  ultimately show ?thesis by (simp add: word_le_nat_alt word_less_nat_alt)
qed

text \<open>
  The condition of the smart-spacing rule in the words of the specification: the next
  byte is a raw printable byte (below 128, not a token code, not the marker 0x0E) that is
  alphanumeric, a double quote or a period.
\<close>

definition raw_spacing_byte :: "byte \<Rightarrow> bool" where
  "raw_spacing_byte next =
    (next < 128 \<and> reverse_find next = None \<and> next \<noteq> 0x0E \<and>
     (isalnum (char_of_byte next) \<or> char_of_byte next = CHR 0x22 \<or>
      char_of_byte next = CHR ''.''))"

lemma smart_space_raw_spacing_byte:
  "smart_space data i endi =
     (if i + 1 < endi \<and> raw_spacing_byte (data ! nat (i + 1)) then [CHR '' ''] else [])"
  by (auto simp: smart_space_def raw_spacing_byte_def Let_def reverse_find_lt128)

text \<open>
  Claim C7. Where the decoder replaces a token byte by its keyword, the keyword is
  followed by exactly one inserted space if the next byte of the payload is a raw
  printable byte that is alphanumeric, a double quote or a period, and by no inserted
  space otherwise; decoding then goes on with the next byte.
\<close>

theorem DecodeLineData_token_spacing:
  "i < endi \<Longrightarrow> reverse_find (data ! nat i) = Some keyword \<Longrightarrow>
   DecodeLineData_loop data i endi =
     keyword
     @ (if i + 1 < endi \<and> raw_spacing_byte (data ! nat (i + 1)) then [CHR '' ''] else [])
     @ DecodeLineData_loop data (i + 1) endi"
proof -
  assume a: "i < endi" and b: "reverse_find (data ! nat i) = Some keyword"
  from reverse_find_ge[OF b] have "data ! nat i \<noteq> 0x0E" by auto
  then show ?thesis using a b
    by (subst DecodeLineData_loop.simps) (simp add: smart_space_raw_spacing_byte)
qed

theorem DecodeLineData_token_spacing_witness:
  "DecodeLineData_loop [0xF5, 0x22, 0x41, 0x22] 0 4 =
     ''PRINT'' @ [CHR '' ''] @ [CHR 0x22, CHR ''A'', CHR 0x22] \<and>
   DecodeLineData_loop [0xF5, 0xC3, 0x31, 0x0E, 0, 0, 1, 0, 0] 0 9 =
     ''PRINT'' @ [] @ ''NOT 1''"
proof -
  have p: "reverse_find 0xF5 = Some ''PRINT''" by code_simp
  have s1: "raw_spacing_byte 0x22" and s2: "\<not> raw_spacing_byte 0xC3" by code_simp+
  have r1: "DecodeLineData_loop [0xF5, 0x22, 0x41, 0x22] (0 + 1) 4 = [CHR 0x22, CHR ''A'', CHR 0x22]"
    by code_simp
  have r2: "DecodeLineData_loop [0xF5, 0xC3, 0x31, 0x0E, 0, 0, 1, 0, 0] (0 + 1) 9 = ''NOT 1''"
    by code_simp
  have "DecodeLineData_loop [0xF5, 0x22, 0x41, 0x22] 0 4 =
     ''PRINT'' @ [CHR '' ''] @ [CHR 0x22, CHR ''A'', CHR 0x22]"
    using DecodeLineData_token_spacing [of 0 4 "[0xF5, 0x22, 0x41, 0x22]" "''PRINT''"] p s1 r1
    by simp
  moreover have "DecodeLineData_loop [0xF5, 0xC3, 0x31, 0x0E, 0, 0, 1, 0, 0] 0 9 =
     ''PRINT'' @ [] @ ''NOT 1''"
    using DecodeLineData_token_spacing
      [of 0 9 "[0xF5, 0xC3, 0x31, 0x0E, 0, 0, 1, 0, 0]" "''PRINT''"] p s2 r2
    by simp
  ultimately show ?thesis by blast
qed

section \<open>Properties of the key search\<close>

text \<open>
  The sorted key list as a value, for evaluation.
\<close>

lemma sortedKeys_value: "sortedKeys =
    [
     ''RANDOMIZE'', ''SPECTRUM'', ''CONTINUE'', ''DEFPROC'', ''ENDPROC'', ''REMOUNT'',
     ''PALETTE'', ''SCREEN$'', ''CLOSE #'', ''INVERSE'', ''RESTORE'', ''DRIVER'',
     ''REPEAT'', ''SPRITE'', ''INKEY$'', ''DEF FN'', ''FORMAT'', ''OPEN #'',
     ''VERIFY'', ''CIRCLE'', ''BRIGHT'', ''LPRINT'', ''BORDER'', ''GO SUB'',
     ''RETURN'', ''PEEK$'', ''DPOKE'', ''DPEEK'', ''UNTIL'', ''ERROR'',
     ''LOCAL'', ''WHILE'', ''LAYER'', ''MKDIR'', ''RMDIR'', ''POINT'',
     ''ERASE'', ''MERGE'', ''PAPER'', ''FLASH'', ''LLIST'', ''GO TO'',
     ''GOSUB'', ''INPUT'', ''PAUSE'', ''PRINT'', ''CLEAR'', ''PROC'',
     ''ELSE'', ''BANK'', ''TILE'', ''PLAY'', ''ATTR'', ''VAL$'',
     ''CODE'', ''PEEK'', ''STR$'', ''CHR$'', ''LINE'', ''THEN'',
     ''STEP'', ''MOVE'', ''BEEP'', ''OVER'', ''STOP'', ''READ'',
     ''DATA'', ''GOTO'', ''LOAD'', ''LIST'', ''NEXT'', ''POKE'',
     ''PLOT'', ''SAVE'', ''DRAW'', ''COPY'', ''REG'', ''MOD'',
     ''PWD'', ''RND'', ''TAB'', ''VAL'', ''LEN'', ''SIN'',
     ''COS'', ''TAN'', ''ASN'', ''ACS'', ''ATN'', ''EXP'',
     ''INT'', ''SQR'', ''SGN'', ''ABS'', ''USR'', ''NOT'',
     ''BIN'', ''AND'', ''CAT'', ''INK'', ''OUT'', ''NEW'',
     ''DIM'', ''REM'', ''FOR'', ''LET'', ''RUN'', ''CLS'',
     ''<<'', ''>>'', ''ON'', ''CD'', ''PI'', ''FN'',
     ''AT'', ''LN'', ''IN'', ''OR'', ''<='', ''>='',
     ''<>'', ''TO'', ''IF'']"
  by code_simp

declare sortedKeys_value [code]

lemma sortedKeys_ok_sortedKeys: "sortedKeys_ok sortedKeys"
proof -
  have "sorted (map (\<lambda>k. - int (length k)) sortedKeys)"
    unfolding sortedKeys_def by (rule sorted_sort_key)
  then have "sorted_wrt (\<lambda>a b. length a \<ge> length b) sortedKeys"
    by (simp add: sorted_map)
  moreover have "set sortedKeys = set (map fst TokenMap)"
    by (simp add: sortedKeys_def)
  ultimately show ?thesis by (simp add: sortedKeys_ok_def)
qed

text \<open>
  In a list sorted by descending length the first key that passes a test is a longest
  one that passes it; two keys of the table of equal length that match at the same
  place are equal, since the keys are upper case. So every list the constructor can
  produce gives the same key.
\<close>

lemma find_sorted_longest:
  "sorted_wrt (\<lambda>a b. length a \<ge> length b) ks \<Longrightarrow> List.find P ks = Some x \<Longrightarrow>
     \<forall>y\<in>set ks. P y \<longrightarrow> length y \<le> length x"
proof (induction ks)
  case Nil
  then show ?case by simp
next
  case (Cons k ks)
  show ?case
  proof (cases "P k")
    case True
    with Cons.prems have "x = k" by simp
    with Cons.prems show ?thesis by auto
  next
    case False
    with Cons.prems have "List.find P ks = Some x" and "sorted_wrt (\<lambda>a b. length a \<ge> length b) ks"
      by simp_all
    with Cons.IH have "\<forall>y\<in>set ks. P y \<longrightarrow> length y \<le> length x" by blast
    with False show ?thesis by auto
  qed
qed

lemma TokenMap_keys_upper: "list_all (\<lambda>k. map toupper k = k) (map fst TokenMap)"
  by code_simp

lemma CaseInsensitiveEquals_upper:
  "CaseInsensitiveEquals s k \<Longrightarrow> map toupper s = map toupper k"
  by (auto simp: CaseInsensitiveEquals_def list_all2_conv_all_nth intro!: nth_equalityI split: if_splits)

lemma key_matches_upper:
  assumes "key_matches s i a" "a \<in> set (map fst TokenMap)"
  shows "a = map toupper (substr s i (length a))"
proof -
  from assms(1) have "CaseInsensitiveEquals (substr s i (length a)) a"
    by (auto simp: key_matches_def split: if_splits)
  then have "map toupper (substr s i (length a)) = map toupper a"
    by (rule CaseInsensitiveEquals_upper)
  moreover from TokenMap_keys_upper assms(2) have "map toupper a = a"
    unfolding list_all_iff by blast
  ultimately have "map toupper (substr s i (length a)) = a" by (rule trans)
  then show ?thesis by (rule sym)
qed

lemma key_matches_unique:
  assumes "key_matches s i a" "key_matches s i b" "length a = length b"
    and "a \<in> set (map fst TokenMap)" "b \<in> set (map fst TokenMap)"
  shows "a = b"
proof -
  have "a = map toupper (substr s i (length a))"
    using assms(1,4) by (rule key_matches_upper)
  also have "\<dots> = map toupper (substr s i (length b))"
    using assms(3) by (rule arg_cong[where f = "\<lambda>n. map toupper (substr s i n)"])
  also have "\<dots> = b"
    using assms(2,5) by (rule key_matches_upper[symmetric])
  finally show ?thesis .
qed

lemma find_key_any_order:
  assumes "sortedKeys_ok ks" "sortedKeys_ok ks'"
  shows "find_key ks s i = find_key ks' s i"
proof (cases "find_key ks s i")
  case None
  then have "\<forall>k\<in>set ks. \<not> key_matches s i k" by (simp add: find_key_def find_None_iff)
  with assms have "\<forall>k\<in>set ks'. \<not> key_matches s i k" by (simp add: sortedKeys_ok_def)
  then have "find_key ks' s i = None" by (simp add: find_key_def find_None_iff)
  with None show ?thesis by simp
next
  case (Some x)
  then have x: "x \<in> set ks" "key_matches s i x"
    by (auto simp: find_key_def find_Some_iff)
  with assms have "x \<in> set ks'" by (simp add: sortedKeys_ok_def)
  with x(2) obtain x' where x': "find_key ks' s i = Some x'"
    by (cases "find_key ks' s i") (auto simp: find_key_def find_None_iff)
  then have x'2: "x' \<in> set ks'" "key_matches s i x'"
    by (auto simp: find_key_def find_Some_iff)
  from assms Some have "\<forall>y\<in>set ks. key_matches s i y \<longrightarrow> length y \<le> length x"
    unfolding find_key_def sortedKeys_ok_def by (blast intro: find_sorted_longest[rule_format])
  moreover from assms x' have "\<forall>y\<in>set ks'. key_matches s i y \<longrightarrow> length y \<le> length x'"
    unfolding find_key_def sortedKeys_ok_def by (blast intro: find_sorted_longest[rule_format])
  ultimately have "length x = length x'"
    using x x'2 \<open>x \<in> set ks'\<close> assms by (auto simp: sortedKeys_ok_def intro: le_antisym)
  moreover from assms x(1) x'2(1) have "x \<in> set (map fst TokenMap)" "x' \<in> set (map fst TokenMap)"
    unfolding sortedKeys_ok_def by blast+
  ultimately have "x = x'"
    using x(2) x'2(2) by (blast intro: key_matches_unique)
  with Some x' show ?thesis by simp
qed

section \<open>Properties of the encoder\<close>

text \<open>
  Claim C5. Encoding the line \<open>GO TO 10\<close> gives the record with line number 10 and
  length 10 whose payload is the single token byte 0xEC, then the number 10 (its ASCII
  digits, the marker 0x0E, the five packed bytes) and the terminator 0x0D. The key found
  at the start of the line is \<open>GO TO\<close>, for every key order the constructor can produce.
\<close>

theorem ParseLine_GO_TO_10:
  "ParseLine 10 ''GO TO 10'' =
     [0x00, 0x0A, 0x0A, 0x00] @ [0xEC] @ [0x31, 0x30, 0x0E, 0x00, 0x00, 0x0A, 0x00, 0x00]
     @ [0x0D] \<and>
   ConvertFile [''GO TO 10''] =
     Inr \<lparr>output_bytes =
            [0x00, 0x0A, 0x0A, 0x00, 0xEC, 0x31, 0x30, 0x0E, 0x00, 0x00, 0x0A, 0x00, 0x00, 0x0D],
          currentLineNum = 20, AutoStartLine = 32768\<rparr> \<and>
   (\<forall>ks. sortedKeys_ok ks \<longrightarrow> find_key ks ''GO TO 10'' 0 = Some ''GO TO'')"
proof -
  have pl: "ParseLine 10 ''GO TO 10'' =
     [0x00, 0x0A, 0x0A, 0x00] @ [0xEC] @ [0x31, 0x30, 0x0E, 0x00, 0x00, 0x0A, 0x00, 0x00]
     @ [0x0D]"
    by code_simp
  have tr: "trim ''GO TO 10'' = ''GO TO 10''" by code_simp
  have lr: "lineRegex ''GO TO 10'' = None" by code_simp
  have cf: "ConvertFile [''GO TO 10''] =
     Inr \<lparr>output_bytes =
            [0x00, 0x0A, 0x0A, 0x00, 0xEC, 0x31, 0x30, 0x0E, 0x00, 0x00, 0x0A, 0x00, 0x00, 0x0D],
          currentLineNum = 20, AutoStartLine = 32768\<rparr>"
    by (simp add: ConvertFile_def ConvertFile_line_def tr lr pl)
  have fk: "find_key sortedKeys ''GO TO 10'' 0 = Some ''GO TO''" by code_simp
  have "find_key ks ''GO TO 10'' 0 = Some ''GO TO''" if "sortedKeys_ok ks" for ks
    using find_key_any_order[OF that sortedKeys_ok_sortedKeys] fk by simp
  with pl cf show ?thesis by blast
qed

theorem ParseLine_GO_TO_10_witness:
  "sortedKeys_ok sortedKeys \<and> find_key sortedKeys ''GO TO 10'' 0 = Some ''GO TO''"
  using ParseLine_GO_TO_10 sortedKeys_ok_sortedKeys by blast

lemma and_255: "(x :: int) AND 255 = x mod 256"
proof -
  have "x AND mask 8 = x mod 2 ^ 8"
    by (simp flip: take_bit_eq_mask add: take_bit_eq_mod)
  then show ?thesis by (simp add: mask_eq_exp_minus_1)
qed

lemma Pack_of_int:
  "- 65535 \<le> n \<Longrightarrow> n \<le> 65535 \<Longrightarrow>
   Pack (of_int n) =
     [0x00, if n < 0 then 0xFF else 0x00, word_of_int (\<bar>n\<bar> mod 256),
      word_of_int (\<bar>n\<bar> div 256), 0x00]"
  by (auto simp: Pack_def static_cast_int_def static_cast_uint8_def Let_def and_255
      drop_bit_eq_div abs_if)

text \<open>
  Claim C6. For every value that is an exact integer between -65535 and 65535 the packer
  returns 0x00, the sign byte (0xFF for a negative value, 0x00 otherwise), the low byte
  and the high byte of the absolute value, and 0x00; every other value (fractional or
  out of range) packs as five zero bytes; and the literal \<open>100\<close> is encoded as its three
  ASCII digits, the marker 0x0E and the bytes 00 00 64 00 00.
\<close>

theorem Pack_integer_or_zero:
  "(frac number = 0 \<and> - 65535 \<le> number \<and> number \<le> 65535 \<longrightarrow>
      Pack number =
        [0x00, if number < 0 then 0xFF else 0x00,
         word_of_int (\<bar>\<lfloor>number\<rfloor>\<bar> mod 256), word_of_int (\<bar>\<lfloor>number\<rfloor>\<bar> div 256), 0x00]) \<and>
   (\<not> (frac number = 0 \<and> - 65535 \<le> number \<and> number \<le> 65535) \<longrightarrow>
      Pack number = [0x00, 0x00, 0x00, 0x00, 0x00]) \<and>
   ParseLine_loop ''100'' 0 = [0x31, 0x30, 0x30] @ [0x0E] @ [0x00, 0x00, 0x64, 0x00, 0x00]"
proof (intro conjI impI)
  assume a: "frac number = 0 \<and> - 65535 \<le> number \<and> number \<le> 65535"
  then have "number \<in> \<int>" by simp
  then obtain n where n: "number = of_int n" by (auto elim: Ints_cases)
  with a have "- 65535 \<le> n" "n \<le> 65535" by simp_all
  from Pack_of_int[OF this] n show "Pack number =
        [0x00, if number < 0 then 0xFF else 0x00,
         word_of_int (\<bar>\<lfloor>number\<rfloor>\<bar> mod 256), word_of_int (\<bar>\<lfloor>number\<rfloor>\<bar> div 256), 0x00]"
    by simp
next
  assume "\<not> (frac number = 0 \<and> - 65535 \<le> number \<and> number \<le> 65535)"
  then show "Pack number = [0x00, 0x00, 0x00, 0x00, 0x00]"
    by (auto simp: Pack_def)
next
  show "ParseLine_loop ''100'' 0 = [0x31, 0x30, 0x30] @ [0x0E] @ [0x00, 0x00, 0x64, 0x00, 0x00]"
    by code_simp
qed

theorem Pack_integer_or_zero_witness:
  "Pack 100 = [0x00, 0x00, 0x64, 0x00, 0x00] \<and>
   Pack (- 300) = [0x00, 0xFF, 0x2C, 0x01, 0x00] \<and>
   Pack 65535 = [0x00, 0x00, 0xFF, 0xFF, 0x00] \<and>
   Pack (314 / 100) = [0x00, 0x00, 0x00, 0x00, 0x00] \<and>
   Pack 65536 = [0x00, 0x00, 0x00, 0x00, 0x00]"
proof -
  have "Pack 100 = [0x00, 0x00, 0x64, 0x00, 0x00]"
    using Pack_integer_or_zero [of 100] by simp
  moreover have "Pack (- 300) = [0x00, 0xFF, 0x2C, 0x01, 0x00]"
    using Pack_integer_or_zero [of "- 300"] by simp
  moreover have "Pack 65535 = [0x00, 0x00, 0xFF, 0xFF, 0x00]"
    using Pack_integer_or_zero [of 65535] by simp
  moreover have "frac (314 / 100 :: rat) = 7 / 50"
    by code_simp
  then have "frac (314 / 100 :: rat) \<noteq> 0"
    by simp
  then have "Pack (314 / 100) = [0x00, 0x00, 0x00, 0x00, 0x00]"
    using Pack_integer_or_zero [of "314 / 100"] by blast
  moreover have "Pack 65536 = [0x00, 0x00, 0x00, 0x00, 0x00]"
    using Pack_integer_or_zero [of 65536] by simp
  ultimately show ?thesis by blast
qed

text \<open>
  Claim C2 does not hold of \<^verbatim>\<open>ParseLine\<close> in \<^verbatim>\<open>src/cpp/txt2bas/txt2bas.cpp\<close>, which has no
  branch for \<^verbatim>\<open>;\<close>: on a line that starts with \<^verbatim>\<open>;\<close> the semicolon and the space are copied
  as raw bytes and the rest of the line is tokenized (\<open>PRINT\<close> becomes 0xF5 and the
  number gets its hidden form), where the claim asks for the bytes of the line as they
  are.
\<close>

theorem ParseLine_semicolon_is_tokenized:
  "ParseLine_loop ''; PRINT 1'' 0 =
     [0x3B, 0x20, 0xF5, 0x31, 0x0E, 0x00, 0x00, 0x01, 0x00, 0x00] \<and>
   bytes_of_string ''; PRINT 1'' = [0x3B, 0x20, 0x50, 0x52, 0x49, 0x4E, 0x54, 0x20, 0x31]"
  by code_simp

text \<open>
  Claim C8 does not hold of \<^verbatim>\<open>ConvertFile\<close> in \<^verbatim>\<open>src/cpp/txt2bas/txt2bas.cpp\<close>: the stream
  extraction \<^verbatim>\<open>iss >> val\<close> succeeds on an operand that only begins with digits, so the
  directive \<^verbatim>\<open>#autostart 12abc\<close>, whose operand is not a number, sets the autostart line
  to 12.
\<close>

theorem ConvertFile_line_autostart_numeric_prefix:
  "ConvertFile_line st ''#autostart 12abc'' = Inr (st\<lparr>AutoStartLine := 12\<rparr>)"
  by code_simp

end
